theory Spec2Isabelle
  imports Main "HOL-Library.Word"
begin

section \<open>Data model of node.go\<close>

text \<open>
  The lifecycle states, in the order of the \<open>iota\<close> block: the type is a byte and
  \<open>ERROR\<close> is its value 0, so \<open>ERROR\<close> is the smallest state in every comparison.
\<close>

datatype state = ERROR | CREATED | RUNNING | HEALTH_CHECKING | SHUTTING_DOWN | SHUTDOWN

fun state_byte :: "state \<Rightarrow> 8 word" where
  "state_byte ERROR = 0"
| "state_byte CREATED = 1"
| "state_byte RUNNING = 2"
| "state_byte HEALTH_CHECKING = 3"
| "state_byte SHUTTING_DOWN = 4"
| "state_byte SHUTDOWN = 5"

text \<open>\<open>time.Duration\<close> is a 64-bit integer; the node only compares it with 0.\<close>

type_synonym Duration = "64 word"

type_synonym TCPAddr = string

datatype Command = Command (Name: string)

datatype CommandBuilder = CommandBuilder (Build: Command)

text \<open>
  Errors are values. \<open>IllegalState\<close> carries what the message of \<open>stateCheck\<close> prints:
  the allow-list and the current state. The other two are the errors of the collaborators
  (address resolution and the connection), opaque to the node.
\<close>

datatype error = IllegalState "state list" state | ResolveError string | ConnectionError string

text \<open>The two ways a call can panic instead of returning.\<close>

datatype fault = NilDereference | ConnectionsStillInUse

text \<open>
  Modelled from the spec: the connection type and its methods \<open>notInFlight\<close>,
  \<open>resetBuffer\<close>, \<open>close\<close>, \<open>execute\<close> and \<open>connect\<close> are not part of node.go.
  A connection has an in-flight marker and a buffer, which the first two methods reset;
  \<open>close\<close> marks it closed and reports the error the collaborator gives
  (\<open>closeResult\<close>). A \<open>*connection\<close> is a \<open>connection option\<close>, \<open>None\<close> being nil;
  a method that reads the connection panics when called through nil.
\<close>

record connection =
  ident :: nat
  inFlight :: bool
  buffer :: "8 word list"
  closed :: bool
  closeResult :: "error option"

definition notInFlight :: "connection \<Rightarrow> connection" where
  "notInFlight c = c\<lparr>inFlight := False\<rparr>"

definition resetBuffer :: "connection \<Rightarrow> connection" where
  "resetBuffer c = c\<lparr>buffer := []\<rparr>"

definition close :: "connection \<Rightarrow> error option \<times> connection" where
  "close c = (closeResult c, c\<lparr>closed := True\<rparr>)"

record connectionOptions =
  remoteAddress :: TCPAddr
  connectTimeout :: Duration
  requestTimeout :: Duration
  healthCheck :: "Command option"

text \<open>
  What one dial does, given the options \<open>createNewConnection\<close> builds:
  \<open>newConnection\<close> fails, or it gives a connection whose \<open>connect\<close> fails, or both succeed.
\<close>

datatype dial = NewConnectionFails error | ConnectFails connection error | Dialled connection

type_synonym dialer = "connectionOptions \<Rightarrow> dial"

record NodeOptions =
  RemoteAddress :: string
  MinConnections :: "16 word"
  MaxConnections :: "16 word"
  IdleTimeout :: Duration
  ConnectTimeout :: Duration
  RequestTimeout :: Duration
  HealthCheckBuilder :: "CommandBuilder option"

text \<open>The default constants are declared in another file; they are parameters here.\<close>

record defaults =
  defaultRemoteAddress :: string
  defaultMinConnections :: "16 word"
  defaultMaxConnections :: "16 word"
  defaultIdleTimeout :: Duration
  defaultConnectTimeout :: Duration
  defaultRequestTimeout :: Duration

text \<open>
  The node. The two mutexes are left out: every function below is one call running
  alone, from its first statement to its return.
\<close>

record Node =
  addr :: TCPAddr
  minConnections :: "16 word"
  maxConnections :: "16 word"
  idleTimeout :: Duration
  connectTimeout :: Duration
  requestTimeout :: Duration
  healthCheckBuilder :: "CommandBuilder option"
  available :: "connection option list"
  currentNumConnections :: "16 word"
  state :: state

section \<open>Operations\<close>

definition defaultNodeOptions :: "defaults \<Rightarrow> NodeOptions" where
  "defaultNodeOptions d =
     \<lparr>RemoteAddress = defaultRemoteAddress d,
      MinConnections = defaultMinConnections d,
      MaxConnections = defaultMaxConnections d,
      IdleTimeout = defaultIdleTimeout d,
      ConnectTimeout = defaultConnectTimeout d,
      RequestTimeout = defaultRequestTimeout d,
      HealthCheckBuilder = None\<rparr>"

text \<open>
  \<open>NewNode\<close>: zero fields take their defaults, then the address is resolved by
  \<open>resolve\<close> (the collaborator \<open>net.ResolveTCPAddr\<close>). \<open>make([]*connection, n)\<close> is a
  slice of length \<open>n\<close> whose elements are all nil; the count field is not set and so is 0.
\<close>

definition NewNode ::
  "defaults \<Rightarrow> (string \<Rightarrow> error + TCPAddr) \<Rightarrow> NodeOptions option \<Rightarrow> error + Node" where
  "NewNode d resolve options =
     (let o0 = (case options of None \<Rightarrow> defaultNodeOptions d | Some opts \<Rightarrow> opts);
          o1 = (if RemoteAddress o0 = [] then o0\<lparr>RemoteAddress := defaultRemoteAddress d\<rparr> else o0);
          o2 = (if MinConnections o1 = 0 then o1\<lparr>MinConnections := defaultMinConnections d\<rparr> else o1);
          o3 = (if MaxConnections o2 = 0 then o2\<lparr>MaxConnections := defaultMaxConnections d\<rparr> else o2);
          o4 = (if IdleTimeout o3 = 0 then o3\<lparr>IdleTimeout := defaultIdleTimeout d\<rparr> else o3);
          o5 = (if ConnectTimeout o4 = 0 then o4\<lparr>ConnectTimeout := defaultConnectTimeout d\<rparr> else o4);
          o6 = (if RequestTimeout o5 = 0 then o5\<lparr>RequestTimeout := defaultRequestTimeout d\<rparr> else o5)
      in case resolve (RemoteAddress o6) of
           Inr resolvedAddress \<Rightarrow>
             Inr \<lparr>addr = resolvedAddress,
                  minConnections = MinConnections o6,
                  maxConnections = MaxConnections o6,
                  idleTimeout = IdleTimeout o6,
                  connectTimeout = ConnectTimeout o6,
                  requestTimeout = RequestTimeout o6,
                  healthCheckBuilder = HealthCheckBuilder o6,
                  available = replicate (unat (MinConnections o6)) None,
                  currentNumConnections = 0,
                  state = CREATED\<rparr>
         | Inl err \<Rightarrow> Inl err)"

definition setState :: "Node \<Rightarrow> state \<Rightarrow> Node" where
  "setState n s = n\<lparr>state := s\<rparr>"

text \<open>The loop of \<open>stateCheck\<close> over the allow-list, leaving at the first match.\<close>

fun stateChecked :: "state \<Rightarrow> state list \<Rightarrow> bool" where
  "stateChecked cur [] = False"
| "stateChecked cur (s # allowed) = (if cur = s then True else stateChecked cur allowed)"

definition stateCheck :: "Node \<Rightarrow> state list \<Rightarrow> error option" where
  "stateCheck n allowed =
     (if \<not> stateChecked (state n) allowed then Some (IllegalState allowed (state n)) else None)"

definition getAvailableConnection :: "Node \<Rightarrow> connection option \<times> Node" where
  "getAvailableConnection n =
     (case available n of
        [] \<Rightarrow> (None, n)
      | c # rest \<Rightarrow> (c, n\<lparr>available := rest\<rparr>))"

text \<open>
  \<open>returnConnectionToPool\<close>, called with a connection that exists (its only caller passes
  one whose creation succeeded). The comparison is the one on the bytes. The result is
  the node and the connection as the call leaves it; \<open>shouldLock\<close> only chooses whether
  the pool lock is taken.
\<close>

definition returnConnectionToPool :: "Node \<Rightarrow> connection \<Rightarrow> bool \<Rightarrow> Node \<times> connection" where
  "returnConnectionToPool n c shouldLock =
     (if state_byte (state n) < state_byte SHUTTING_DOWN
      then (let c' = resetBuffer (notInFlight c)
            in (n\<lparr>available := available n @ [Some c']\<rparr>, c'))
      else (let n' = n\<lparr>currentNumConnections := currentNumConnections n - 1\<rparr>
            in (n', snd (close c))))"

text \<open>
  \<open>createNewConnection\<close>: the options are built from the node and handed to the dial;
  the count goes up only when both \<open>newConnection\<close> and \<open>connect\<close> succeed. The
  pair \<open>(conn, err)\<close> of the source is \<open>Inr conn\<close> when \<open>err\<close> is nil and \<open>Inl err\<close>
  otherwise (the caller reads \<open>conn\<close> only when \<open>err\<close> is nil).
\<close>

definition createNewConnection :: "dialer \<Rightarrow> Node \<Rightarrow> (error + connection) \<times> Node" where
  "createNewConnection dl n =
     (let opts = \<lparr>remoteAddress = addr n,
                  connectionOptions.connectTimeout = connectTimeout n,
                  connectionOptions.requestTimeout = requestTimeout n,
                  healthCheck = (case healthCheckBuilder n of
                                   None \<Rightarrow> None
                                 | Some b \<Rightarrow> Some (Build b))\<rparr>
      in case dl opts of
           NewConnectionFails e \<Rightarrow> (Inl e, n)
         | ConnectFails c e \<Rightarrow> (Inl e, n)
         | Dialled c \<Rightarrow> (Inr c, n\<lparr>currentNumConnections := currentNumConnections n + 1\<rparr>))"

text \<open>
  \<open>Execute\<close>. \<open>execute\<close> is the collaborator \<open>conn.execute\<close>. The connection taken
  from the pool is a local variable of the call and is not handed to anyone.
\<close>

definition Execute ::
  "(connection \<Rightarrow> Command \<Rightarrow> error option) \<Rightarrow> Node \<Rightarrow> Command \<Rightarrow> (bool \<times> error option) \<times> Node" where
  "Execute execute n cmd =
     (case stateCheck n [RUNNING, HEALTH_CHECKING] of
        Some err \<Rightarrow> ((False, Some err), n)
      | None \<Rightarrow>
          if state n = RUNNING
          then (case getAvailableConnection n of
                  (None, n') \<Rightarrow> ((False, None), n')
                | (Some conn, n') \<Rightarrow>
                    (case execute conn cmd of
                       None \<Rightarrow> ((True, None), n')
                     | Some err \<Rightarrow> ((False, Some err), n')))
          else ((False, None), n))"

lemma createNewConnection_minConnections:
  "createNewConnection dl n = (r, n') \<Longrightarrow> minConnections n' = minConnections n"
  by (auto simp: createNewConnection_def Let_def split: dial.splits)

lemma returnConnectionToPool_minConnections:
  "minConnections (fst (returnConnectionToPool n c b)) = minConnections n"
  by (simp add: returnConnectionToPool_def Let_def)

lemma loop_counter_step:
  fixes i m :: "16 word"
  assumes "i < m"
  shows "unat m - unat (i + 1) < unat m - unat i"
proof -
  from assms have "i \<noteq> - 1"
    by (metis word_order.extremum_strict)
  then have "i + 1 \<noteq> 0"
    by (metis add_eq_0_iff2)
  then have "unat (i + 1) = Suc (unat i)"
    using unatSuc [of i] by (simp add: add.commute)
  moreover from assms have "unat i < unat m"
    by (simp add: word_less_nat_alt)
  ultimately show ?thesis by simp
qed

text \<open>
  The warm-fill loop of \<open>Start\<close>: \<open>i\<close> is the 16-bit counter, \<open>env k\<close> is what the
  \<open>k\<close>-th dial does. A failed creation is skipped and the loop goes on.
\<close>

function warmFill :: "(nat \<Rightarrow> dialer) \<Rightarrow> 16 word \<Rightarrow> Node \<Rightarrow> Node" where
  "warmFill env i n =
     (if i < minConnections n
      then (case createNewConnection (env (unat i)) n of
              (Inr conn, n') \<Rightarrow> warmFill env (i + 1) (fst (returnConnectionToPool n' conn False))
            | (Inl err, n') \<Rightarrow> warmFill env (i + 1) n')
      else n)"
  by pat_completeness auto
termination
proof (relation "measure (\<lambda>(env, i, n). unat (minConnections n) - unat i)")
  show "wf (measure (\<lambda>(env, i, n). unat (minConnections n) - unat i))"
    by simp
next
  fix env :: "nat \<Rightarrow> dialer" and i :: "16 word" and n x1 x2 b
  assume "i < minConnections n" and "(x1, x2) = createNewConnection (env (unat i)) n"
    and "x1 = Inl b"
  then show "((env, i + 1, x2), env, i, n) \<in> measure (\<lambda>(env, i, n). unat (minConnections n) - unat i)"
    using createNewConnection_minConnections [of "env (unat i)" n x1 x2] loop_counter_step [of i "minConnections n"]
    by simp
next
  fix env :: "nat \<Rightarrow> dialer" and i :: "16 word" and n x1 x2 a
  assume "i < minConnections n" and "(x1, x2) = createNewConnection (env (unat i)) n"
    and "x1 = Inr a"
  then show "((env, i + 1, fst (returnConnectionToPool x2 a False)), env, i, n)
      \<in> measure (\<lambda>(env, i, n). unat (minConnections n) - unat i)"
    using createNewConnection_minConnections [of "env (unat i)" n x1 x2] loop_counter_step [of i "minConnections n"]
    by (simp add: returnConnectionToPool_minConnections)
qed

text \<open>
  \<open>Start\<close>. The error of a failed creation lives in a variable of the loop body, so
  the result of \<open>Start\<close> is the result of its guard.
\<close>

definition Start :: "(nat \<Rightarrow> dialer) \<Rightarrow> Node \<Rightarrow> error option \<times> Node" where
  "Start env n =
     (case stateCheck n [CREATED] of
        Some err \<Rightarrow> (Some err, n)
      | None \<Rightarrow> (None, setState (warmFill env 0 n) RUNNING))"

text \<open>
  The loop of \<open>shutdown\<close> over the slice as it is when the loop starts: slot \<open>i\<close> is set
  to nil, the count goes down by one (a 16-bit subtraction), the connection is closed and
  \<open>err\<close> takes the result of this close, whatever it held. Closing through a nil
  pointer panics. The last argument collects the connections closed, in order.
\<close>

fun drain ::
  "connection option list \<Rightarrow> nat \<Rightarrow> Node \<Rightarrow> error option \<Rightarrow> connection list
     \<Rightarrow> fault + (error option \<times> Node \<times> connection list)" where
  "drain [] i n err cl = Inr (err, n, cl)"
| "drain (None # conns) i n err cl = Inl NilDereference"
| "drain (Some conn # conns) i n err cl =
     (let n' = n\<lparr>available := (available n)[i := None],
                 currentNumConnections := currentNumConnections n - 1\<rparr>;
          (err', conn') = close conn
      in drain conns (Suc i) n' err' (cl @ [conn']))"

definition shutdown :: "Node \<Rightarrow> fault + (error option \<times> Node \<times> connection list)" where
  "shutdown n =
     (case drain (available n) 0 n None [] of
        Inl f \<Rightarrow> Inl f
      | Inr (err, n', cl) \<Rightarrow>
          if err \<noteq> None then Inr (err, setState n' ERROR, cl)
          else if currentNumConnections n' = 0 then Inr (None, setState n' SHUTDOWN, cl)
          else Inl ConnectionsStillInUse)"

text \<open>
  \<open>Stop\<close> calls \<open>shutdown\<close> as a statement: what \<open>shutdown\<close> returns is dropped, and
  \<open>Stop\<close> returns the result of its guard.
\<close>

definition Stop :: "Node \<Rightarrow> fault + (error option \<times> Node \<times> connection list)" where
  "Stop n =
     (case stateCheck n [CREATED, HEALTH_CHECKING] of
        Some err \<Rightarrow> Inr (Some err, n, [])
      | None \<Rightarrow>
          (case shutdown (setState n SHUTTING_DOWN) of
             Inl f \<Rightarrow> Inl f
           | Inr (_, n', cl) \<Rightarrow> Inr (None, n', cl)))"

text \<open>A sequence of \<open>Execute\<close> calls, one after the other, with the result of each.\<close>

fun Executes ::
  "(connection \<Rightarrow> Command \<Rightarrow> error option) \<Rightarrow> Node \<Rightarrow> Command list
     \<Rightarrow> (bool \<times> error option) list \<times> Node" where
  "Executes execute n [] = ([], n)"
| "Executes execute n (cmd # cmds) =
     (let (r, n') = Execute execute n cmd;
          (rs, n'') = Executes execute n' cmds
      in (r # rs, n''))"

section \<open>Example nodes\<close>

text \<open>
  The inputs the concrete evaluations below run on: a configuration with two minimum and
  four maximum connections, a resolver that accepts every address, connections whose
  close succeeds or fails, and a dialler whose every dial succeeds.
\<close>

definition localDefaults :: defaults where
  "localDefaults =
     \<lparr>defaultRemoteAddress = ''127.0.0.1:8087'', defaultMinConnections = 1,
      defaultMaxConnections = 8, defaultIdleTimeout = 3, defaultConnectTimeout = 30,
      defaultRequestTimeout = 5\<rparr>"

definition resolveAny :: "string \<Rightarrow> error + TCPAddr" where
  "resolveAny a = Inr a"

definition twoFour :: NodeOptions where
  "twoFour =
     \<lparr>RemoteAddress = ''10.0.0.1:8087'', MinConnections = 2, MaxConnections = 4,
      IdleTimeout = 3, ConnectTimeout = 30, RequestTimeout = 5, HealthCheckBuilder = None\<rparr>"

definition conn :: "nat \<Rightarrow> error option \<Rightarrow> connection" where
  "conn k r = \<lparr>ident = k, inFlight = True, buffer = [1, 2], closed = False, closeResult = r\<rparr>"

definition idle :: "nat \<Rightarrow> error option \<Rightarrow> connection" where
  "idle k r = \<lparr>ident = k, inFlight = False, buffer = [], closed = False, closeResult = r\<rparr>"

definition dialAll :: "nat \<Rightarrow> dialer" where
  "dialAll k opts = Dialled (conn k None)"

definition createdNode :: Node where
  "createdNode =
     \<lparr>addr = ''10.0.0.1:8087'', minConnections = 2, maxConnections = 4, idleTimeout = 3,
      connectTimeout = 30, requestTimeout = 5, healthCheckBuilder = None,
      available = [None, None], currentNumConnections = 0, state = CREATED\<rparr>"

definition startedNode :: Node where
  "startedNode =
     createdNode\<lparr>available := [None, None, Some (idle 0 None), Some (idle 1 None)],
                 currentNumConnections := 2, state := RUNNING\<rparr>"

definition poolNode :: "state \<Rightarrow> connection list \<Rightarrow> Node" where
  "poolNode s conns =
     \<lparr>addr = ''10.0.0.1:8087'', minConnections = 2, maxConnections = 4, idleTimeout = 3,
      connectTimeout = 30, requestTimeout = 5, healthCheckBuilder = None,
      available = map Some conns, currentNumConnections = of_nat (length conns), state = s\<rparr>"

definition drainFailedNode :: Node where
  "drainFailedNode =
     (poolNode ERROR [])\<lparr>available := [None], currentNumConnections := 1\<rparr>"

section \<open>Facts about the operations\<close>

lemma stateChecked_iff: "stateChecked s allowed = (s \<in> set allowed)"
  by (induction allowed) auto

lemma createNewConnection_cases:
  "createNewConnection dl n = (r, n') \<Longrightarrow>
     (\<exists>e. r = Inl e \<and> n' = n) \<or>
     (\<exists>c. r = Inr c \<and> n' = n\<lparr>currentNumConnections := currentNumConnections n + 1\<rparr>)"
  by (auto simp: createNewConnection_def Let_def split: dial.splits)

text \<open>
  The warm fill only appends: what it leaves is the pool it found, followed by the
  connections dialled, and the count has grown by their number. No dial failure stops it.
\<close>

lemma warmFill_shape:
  "state_byte (state n) < state_byte SHUTTING_DOWN \<Longrightarrow>
   \<exists>live. warmFill env i n =
            n\<lparr>available := available n @ map Some live,
              currentNumConnections := currentNumConnections n + of_nat (length live)\<rparr>
          \<and> length live \<le> unat (minConnections n) - unat i"
proof (induction env i n rule: warmFill.induct)
  case (1 env i n)
  show ?case
  proof (cases "i < minConnections n")
    case False
    then have "warmFill env i n = n\<lparr>available := available n @ map Some [],
              currentNumConnections := currentNumConnections n + of_nat (length ([]::connection list))\<rparr>"
      by simp
    then show ?thesis by (metis list.size(3) le0)
  next
    case True
    obtain r n' where cr: "createNewConnection (env (unat i)) n = (r, n')"
      by (cases "createNewConnection (env (unat i)) n")
    from loop_counter_step [OF True]
    have step: "unat (minConnections n) - unat (i + 1) < unat (minConnections n) - unat i" .
    from createNewConnection_cases [OF cr] show ?thesis
    proof (elim disjE exE conjE)
      fix e assume r: "r = Inl e" and n': "n' = n"
      from "1.IH"(1) [OF True cr [symmetric] r] "1.prems" n'
      obtain live where w: "warmFill env (i + 1) n =
            n\<lparr>available := available n @ map Some live,
              currentNumConnections := currentNumConnections n + of_nat (length live)\<rparr>"
          and l: "length live \<le> unat (minConnections n) - unat (i + 1)"
        by auto
      have "warmFill env i n = warmFill env (i + 1) n"
        using True cr r n' by (subst warmFill.simps) simp
      with w l step show ?thesis by (intro exI [of _ live]) simp
    next
      fix c assume r: "r = Inr c"
        and n': "n' = n\<lparr>currentNumConnections := currentNumConnections n + 1\<rparr>"
      let ?c = "resetBuffer (notInFlight c)"
      let ?n2 = "fst (returnConnectionToPool n' c False)"
      have n2: "?n2 = n\<lparr>currentNumConnections := currentNumConnections n + 1,
                         available := available n @ [Some ?c]\<rparr>"
        using "1.prems" n' by (simp add: returnConnectionToPool_def Let_def)
      then have st: "state_byte (state ?n2) < state_byte SHUTTING_DOWN"
        using "1.prems" by simp
      from "1.IH"(2) [OF True cr [symmetric] r st]
      obtain live where w: "warmFill env (i + 1) ?n2 =
            ?n2\<lparr>available := available ?n2 @ map Some live,
              currentNumConnections := currentNumConnections ?n2 + of_nat (length live)\<rparr>"
          and l: "length live \<le> unat (minConnections ?n2) - unat (i + 1)"
        by auto
      have "warmFill env i n = warmFill env (i + 1) ?n2"
        using True cr r by (subst warmFill.simps) simp
      with w l step n2 show ?thesis
        by (intro exI [of _ "?c # live"]) (simp add: algebra_simps)
    qed
  qed
qed

lemma NewNode_shape:
  assumes "NewNode d resolve options = Inr n"
  shows "available n = replicate (unat (minConnections n)) None"
    and "currentNumConnections n = 0"
    and "state n = CREATED"
  using assms by (auto simp: NewNode_def Let_def split: sum.splits)

text \<open>
  \<open>Start\<close> on a node in state \<open>CREATED\<close> returns no error, whatever the dials do, and
  leaves the node \<open>RUNNING\<close> with the dialled connections behind the pool it found.
\<close>

lemma Start_shape:
  assumes "state n = CREATED"
  shows "\<exists>live. Start env n =
           (None, n\<lparr>available := available n @ map Some live,
                    currentNumConnections := currentNumConnections n + of_nat (length live),
                    state := RUNNING\<rparr>)
         \<and> length live \<le> unat (minConnections n)"
proof -
  from assms have "state_byte (state n) < state_byte SHUTTING_DOWN" by simp
  from warmFill_shape [OF this, of env 0]
  obtain live where w: "warmFill env 0 n =
            n\<lparr>available := available n @ map Some live,
              currentNumConnections := currentNumConnections n + of_nat (length live)\<rparr>"
      and l: "length live \<le> unat (minConnections n)"
    by auto
  have "stateCheck n [CREATED] = None"
    using assms by (simp add: stateCheck_def)
  with w have "Start env n =
           (None, n\<lparr>available := available n @ map Some live,
                    currentNumConnections := currentNumConnections n + of_nat (length live),
                    state := RUNNING\<rparr>)"
    by (simp add: Start_def setState_def)
  with l show ?thesis by blast
qed

lemma Execute_pops_nil:
  assumes "state n = RUNNING" and "available n = None # rest"
  shows "Execute execute n cmd = ((False, None), n\<lparr>available := rest\<rparr>)"
  using assms by (simp add: Execute_def stateCheck_def getAvailableConnection_def)

lemma Executes_pop_nils:
  "state n = RUNNING \<Longrightarrow> available n = replicate j None @ rest \<Longrightarrow> length cmds \<le> j \<Longrightarrow>
   Executes execute n cmds =
     (replicate (length cmds) (False, None), n\<lparr>available := replicate (j - length cmds) None @ rest\<rparr>)"
proof (induction cmds arbitrary: n j)
  case Nil
  then show ?case by simp
next
  case (Cons cmd cmds)
  then obtain k where j: "j = Suc k" by (cases j) auto
  let ?n' = "n\<lparr>available := replicate k None @ rest\<rparr>"
  have e: "Execute execute n cmd = ((False, None), ?n')"
    using Cons.prems j by (intro Execute_pops_nil) auto
  have "Executes execute ?n' cmds =
     (replicate (length cmds) (False, None), ?n'\<lparr>available := replicate (k - length cmds) None @ rest\<rparr>)"
    using Cons.prems j by (intro Cons.IH) auto
  with e j show ?case by simp
qed






text \<open>
  What \<open>returnConnectionToPool\<close> does, state by state: it closes the connection and
  lowers the count in \<open>SHUTTING_DOWN\<close> and \<open>SHUTDOWN\<close>, and pools the connection, reset,
  in every other state, \<open>ERROR\<close> among them.
\<close>

lemma returnConnectionToPool_by_state:
  "returnConnectionToPool n c b =
     (if state n = SHUTTING_DOWN \<or> state n = SHUTDOWN
      then (n\<lparr>currentNumConnections := currentNumConnections n - 1\<rparr>, c\<lparr>closed := True\<rparr>)
      else (n\<lparr>available := available n @ [Some (c\<lparr>inFlight := False, buffer := []\<rparr>)]\<rparr>,
            c\<lparr>inFlight := False, buffer := []\<rparr>))"
  by (cases "state n")
    (simp_all add: returnConnectionToPool_def Let_def close_def notInFlight_def resetBuffer_def)

text \<open>
  The result of \<open>Execute\<close> from what the checkout returns: \<open>(false, nil)\<close> exactly
  when the guard passed and either the state is not \<open>RUNNING\<close> or the checkout returned
  nil (the pool is empty, or its first slot is nil); \<open>false\<close> with an error exactly when
  the guard failed or the command was run on the connection checked out and its
  execution returned an error.
\<close>

lemma Execute_result_by_checkout:
  "(fst (Execute execute n cmd) = (False, None)
      \<longleftrightarrow> stateCheck n [RUNNING, HEALTH_CHECKING] = None
          \<and> (state n \<noteq> RUNNING \<or> fst (getAvailableConnection n) = None))
   \<and> ((\<exists>err. fst (Execute execute n cmd) = (False, Some err))
      \<longleftrightarrow> stateCheck n [RUNNING, HEALTH_CHECKING] \<noteq> None
          \<or> (state n = RUNNING
              \<and> (\<exists>conn. fst (getAvailableConnection n) = Some conn \<and> execute conn cmd \<noteq> None)))"
  by (auto simp: Execute_def stateCheck_def getAvailableConnection_def
      split: option.splits if_splits list.splits prod.splits)

section \<open>The claims\<close>

text \<open>
  C1. The claim: at every point the count of connections is at least the length of the
  idle sequence, in particular right after \<open>NewNode\<close> and after \<open>Start\<close>. The code
  at a configuration with two minimum connections: \<open>NewNode\<close> returns a node whose idle
  sequence has length 2 while its count is 0, and after a \<open>Start\<close> whose two dials
  succeed the idle sequence has length 4 while the count is 2.
\<close>

theorem NewNode_count_below_pool_length:
  "NewNode localDefaults resolveAny (Some twoFour) = Inr createdNode
   \<and> unat (currentNumConnections createdNode) = 0
   \<and> length (available createdNode) = 2
   \<and> Start dialAll createdNode = (None, startedNode)
   \<and> unat (currentNumConnections startedNode) = 2
   \<and> length (available startedNode) = 4"
  by code_simp

text \<open>
  C2. The claim: after \<open>Start\<close> returns without error the state is \<open>RUNNING\<close> and the
  idle sequence is at most \<open>minConnections\<close> long. The code at the same configuration:
  \<open>Start\<close> returns no error and the state is \<open>RUNNING\<close>, but the idle sequence has
  length 4 with \<open>minConnections\<close> 2, the two nil slots of \<open>NewNode\<close> still in front.
  (\<open>Start_shape\<close> above is the part that holds for every node: no dial failure makes
  \<open>Start\<close> fail, and the state becomes \<open>RUNNING\<close>.)
\<close>

theorem Start_pool_longer_than_minConnections:
  "NewNode localDefaults resolveAny (Some twoFour) = Inr createdNode
   \<and> fst (Start dialAll createdNode) = None
   \<and> state (snd (Start dialAll createdNode)) = RUNNING
   \<and> unat (minConnections (snd (Start dialAll createdNode))) = 2
   \<and> length (available (snd (Start dialAll createdNode))) = 4
   \<and> available (snd (Start dialAll createdNode))
       = [None, None, Some (idle 0 None), Some (idle 1 None)]"
  by code_simp




text \<open>
  C4. The claim: when closing an idle connection fails, the drain stops there, the state
  becomes \<open>ERROR\<close> and \<open>Stop\<close> returns the first close error. The code with two idle
  connections of which the first fails to close: both are closed and counted, the state
  is \<open>SHUTDOWN\<close>, and \<open>Stop\<close> returns no error. When it is the last one that fails to
  close, the state is \<open>ERROR\<close>, the connection before it has been closed and counted,
  and \<open>Stop\<close> still returns no error.
\<close>

theorem Stop_drain_overwrites_close_error:
  "Stop (poolNode HEALTH_CHECKING [idle 0 (Some (ConnectionError ''broken pipe'')), idle 1 None])
     = Inr (None,
            (poolNode HEALTH_CHECKING [idle 0 (Some (ConnectionError ''broken pipe'')), idle 1 None])
              \<lparr>available := [None, None], currentNumConnections := 0, state := SHUTDOWN\<rparr>,
            [(idle 0 (Some (ConnectionError ''broken pipe'')))\<lparr>closed := True\<rparr>,
             (idle 1 None)\<lparr>closed := True\<rparr>])
   \<and> Stop (poolNode HEALTH_CHECKING [idle 0 None, idle 1 (Some (ConnectionError ''broken pipe''))])
     = Inr (None,
            (poolNode HEALTH_CHECKING [idle 0 None, idle 1 (Some (ConnectionError ''broken pipe''))])
              \<lparr>available := [None, None], currentNumConnections := 0, state := ERROR\<rparr>,
            [(idle 0 None)\<lparr>closed := True\<rparr>,
             (idle 1 (Some (ConnectionError ''broken pipe'')))\<lparr>closed := True\<rparr>])"
  by code_simp

text \<open>
  C5. The claim: a connection returned in state \<open>SHUTTING_DOWN\<close>, \<open>SHUTDOWN\<close> or
  \<open>ERROR\<close> is closed and the count decremented. The code in state \<open>ERROR\<close>, which a
  \<open>Stop\<close> reaches when the close of the drain fails while one connection is checked
  out: the connection returned is reset and appended to the idle sequence, it is not
  closed, and the count stays 1.
\<close>

theorem returnConnectionToPool_pools_in_ERROR:
  "Stop ((poolNode HEALTH_CHECKING [idle 0 (Some (ConnectionError ''broken pipe''))])
           \<lparr>currentNumConnections := 2\<rparr>)
     = Inr (None, drainFailedNode, [(idle 0 (Some (ConnectionError ''broken pipe'')))\<lparr>closed := True\<rparr>])
   \<and> state drainFailedNode = ERROR
   \<and> returnConnectionToPool drainFailedNode (conn 1 None) True
     = (drainFailedNode\<lparr>available := [None, Some (idle 1 None)]\<rparr>, idle 1 None)
   \<and> closed (snd (returnConnectionToPool drainFailedNode (conn 1 None) True)) = False
   \<and> currentNumConnections (fst (returnConnectionToPool drainFailedNode (conn 1 None) True)) = 1"
  by code_simp

text \<open>
  C6. The claim: \<open>Execute\<close> checks the connection back in before it returns, on success
  and on failure, so the idle sequence is as long at the return as at the call. The code
  on a running node with two idle connections: after a successful command and after a
  failed one alike, the idle sequence holds one connection, and the count is still 2.
\<close>

theorem Execute_keeps_connection_out:
  "Execute (\<lambda>c cmd. None) (poolNode RUNNING [idle 0 None, idle 1 None]) (Command ''ping'')
     = ((True, None), (poolNode RUNNING [idle 0 None, idle 1 None])\<lparr>available := [Some (idle 1 None)]\<rparr>)
   \<and> Execute (\<lambda>c cmd. Some (ConnectionError ''timeout''))
        (poolNode RUNNING [idle 0 None, idle 1 None]) (Command ''ping'')
     = ((False, Some (ConnectionError ''timeout'')),
        (poolNode RUNNING [idle 0 None, idle 1 None])\<lparr>available := [Some (idle 1 None)]\<rparr>)
   \<and> length (available (poolNode RUNNING [idle 0 None, idle 1 None])) = 2
   \<and> currentNumConnections (poolNode RUNNING [idle 0 None, idle 1 None]) = 2"
  by code_simp

text \<open>
  C7. Whatever the command, the node and the collaborator do, when \<open>Execute\<close> returns
  \<open>executed = true\<close> its error is nil and the idle sequence was not empty at the call.
\<close>

theorem Execute_executed_sound:
  assumes "Execute execute n cmd = ((True, err), n')"
  shows "err = None \<and> available n \<noteq> []"
  using assms
  by (auto simp: Execute_def getAvailableConnection_def
      split: option.splits if_splits list.splits prod.splits)

theorem Execute_executed_sound_witness:
  "Execute (\<lambda>c cmd. None) (poolNode RUNNING [idle 0 None]) (Command ''ping'')
     = ((True, None), (poolNode RUNNING [idle 0 None])\<lparr>available := []\<rparr>)
   \<and> available (poolNode RUNNING [idle 0 None]) \<noteq> []"
proof -
  have h: "Execute (\<lambda>c cmd. None) (poolNode RUNNING [idle 0 None]) (Command ''ping'')
     = ((True, None), (poolNode RUNNING [idle 0 None])\<lparr>available := []\<rparr>)"
    by code_simp
  from Execute_executed_sound [OF h] h show ?thesis by simp
qed

text \<open>
  C8. The claim: \<open>Execute\<close> returns \<open>(false, nil)\<close> exactly when the guard passed and
  either the state is not \<open>RUNNING\<close> or no connection is available. The code on the
  node that \<open>NewNode\<close> and a \<open>Start\<close> with two successful dials leave: the guard
  passes, the state is \<open>RUNNING\<close> and two connections are in the pool, yet \<open>Execute\<close>
  returns \<open>(false, nil)\<close> and the command is not run, on a command whose execution
  would succeed: the checkout takes the nil slot at the head of the pool.
  (\<open>Execute_result_by_checkout\<close> above gives the result of \<open>Execute\<close> from what the
  checkout returns.)
\<close>

theorem Execute_benign_result_with_live_pool:
  "NewNode localDefaults resolveAny (Some twoFour) = Inr createdNode
   \<and> Start dialAll createdNode = (None, startedNode)
   \<and> stateCheck startedNode [RUNNING, HEALTH_CHECKING] = None
   \<and> state startedNode = RUNNING
   \<and> available startedNode = [None, None, Some (idle 0 None), Some (idle 1 None)]
   \<and> currentNumConnections startedNode = 2
   \<and> Execute (\<lambda>c cmd. None) startedNode (Command ''ping'')
       = ((False, None),
          startedNode\<lparr>available := [None, Some (idle 0 None), Some (idle 1 None)]\<rparr>)"
  by code_simp

text \<open>
  C9. The claim: \<open>Stop\<close> on a node in state \<open>RUNNING\<close> does not return an illegal-state
  error. The code on the node that \<open>Start\<close> leaves in state \<open>RUNNING\<close>: \<open>Stop\<close>
  returns the illegal-state error of its guard, whose allow-list is \<open>CREATED\<close> and
  \<open>HEALTH_CHECKING\<close>, and the node is unchanged. On the node as \<open>NewNode\<close> returns
  it, which the guard lets through, the drain meets the nil slots and \<open>Stop\<close> panics.
\<close>

theorem Stop_refuses_RUNNING:
  "Start dialAll createdNode = (None, startedNode)
   \<and> state startedNode = RUNNING
   \<and> Stop startedNode
       = Inr (Some (IllegalState [CREATED, HEALTH_CHECKING] RUNNING), startedNode, [])
   \<and> Stop createdNode = Inl NilDereference"
  by code_simp

text \<open>
  C10. The node \<open>NewNode\<close> returns has an idle sequence of \<open>minConnections\<close> nil slots
  and a count of 0. \<open>Start\<close> on it returns no error and appends the connections it
  dialled behind those slots, the count being their number. Every one of the first
  \<open>minConnections\<close> calls of \<open>Execute\<close> then pops a nil slot and returns
  \<open>(false, nil)\<close>, the dialled connections staying in the pool behind.
\<close>

theorem NewNode_nil_placeholders_shadow_pool:
  assumes new: "NewNode d resolve options = Inr n"
    and few: "length cmds \<le> unat (minConnections n)"
  shows "available n = replicate (unat (minConnections n)) None
     \<and> currentNumConnections n = 0
     \<and> (\<exists>live. Start env n =
           (None, n\<lparr>available := replicate (unat (minConnections n)) None @ map Some live,
                    currentNumConnections := of_nat (length live),
                    state := RUNNING\<rparr>)
         \<and> Executes execute (snd (Start env n)) cmds =
           (replicate (length cmds) (False, None),
            (snd (Start env n))
              \<lparr>available := replicate (unat (minConnections n) - length cmds) None @ map Some live\<rparr>))"
proof -
  note sh = NewNode_shape [OF new]
  from Start_shape [OF sh(3), of env] sh(1,2)
  obtain live where st: "Start env n =
           (None, n\<lparr>available := replicate (unat (minConnections n)) None @ map Some live,
                    currentNumConnections := of_nat (length live),
                    state := RUNNING\<rparr>)"
    by auto
  let ?n1 = "snd (Start env n)"
  have "state ?n1 = RUNNING"
    and "available ?n1 = replicate (unat (minConnections n)) None @ map Some live"
    using st by simp_all
  from Executes_pop_nils [OF this few, of execute]
  have ex: "Executes execute ?n1 cmds =
           (replicate (length cmds) (False, None),
            ?n1\<lparr>available := replicate (unat (minConnections n) - length cmds) None @ map Some live\<rparr>)" .
  from st ex have "\<exists>live. Start env n =
           (None, n\<lparr>available := replicate (unat (minConnections n)) None @ map Some live,
                    currentNumConnections := of_nat (length live),
                    state := RUNNING\<rparr>)
         \<and> Executes execute (snd (Start env n)) cmds =
           (replicate (length cmds) (False, None),
            (snd (Start env n))
              \<lparr>available := replicate (unat (minConnections n) - length cmds) None @ map Some live\<rparr>)"
    by (intro exI [of _ live] conjI)
  with sh(1,2) show ?thesis by (intro conjI)
qed

theorem NewNode_nil_placeholders_shadow_pool_witness:
  "NewNode localDefaults resolveAny (Some twoFour) = Inr createdNode
   \<and> available createdNode = [None, None]
   \<and> currentNumConnections createdNode = 0
   \<and> Start dialAll createdNode = (None, startedNode)
   \<and> available startedNode = [None, None, Some (idle 0 None), Some (idle 1 None)]
   \<and> Executes (\<lambda>c cmd. None) startedNode [Command ''get'', Command ''put'']
       = ([(False, None), (False, None)],
          startedNode\<lparr>available := [Some (idle 0 None), Some (idle 1 None)]\<rparr>)"
proof -
  have new: "NewNode localDefaults resolveAny (Some twoFour) = Inr createdNode"
    by code_simp
  have few: "length [Command ''get'', Command ''put''] \<le> unat (minConnections createdNode)"
    by code_simp
  have two: "replicate (unat (minConnections createdNode)) (None :: connection option) = [None, None]"
    by code_simp
  have st: "Start dialAll createdNode = (None, startedNode)"
    by code_simp
  have av: "available startedNode = [None, None, Some (idle 0 None), Some (idle 1 None)]"
    by code_simp
  from NewNode_nil_placeholders_shadow_pool [OF new few, of dialAll "\<lambda>c cmd. None"]
  obtain live where a: "available createdNode = replicate (unat (minConnections createdNode)) None"
    and c: "currentNumConnections createdNode = 0"
    and s: "Start dialAll createdNode =
           (None, createdNode\<lparr>available := replicate (unat (minConnections createdNode)) None @ map Some live,
                    currentNumConnections := of_nat (length live),
                    state := RUNNING\<rparr>)"
    and e: "Executes (\<lambda>c cmd. None) (snd (Start dialAll createdNode)) [Command ''get'', Command ''put''] =
           (replicate (length [Command ''get'', Command ''put'']) (False, None),
            (snd (Start dialAll createdNode))
              \<lparr>available := replicate (unat (minConnections createdNode) - length [Command ''get'', Command ''put'']) None @ map Some live\<rparr>)"
    by blast
  from s st have eq: "startedNode =
      createdNode\<lparr>available := replicate (unat (minConnections createdNode)) None @ map Some live,
                  currentNumConnections := of_nat (length live),
                  state := RUNNING\<rparr>"
    by simp
  have "available startedNode = replicate (unat (minConnections createdNode)) None @ map Some live"
    by (subst eq) simp
  with av two have live: "map Some live = [Some (idle 0 None), Some (idle 1 None)]"
    by simp
  have z: "unat (minConnections createdNode) - length [Command ''get'', Command ''put''] = 0"
    by code_simp
  from e st live z have "Executes (\<lambda>c cmd. None) startedNode [Command ''get'', Command ''put'']
       = ([(False, None), (False, None)],
          startedNode\<lparr>available := [Some (idle 0 None), Some (idle 1 None)]\<rparr>)"
    by (simp add: numeral_2_eq_2)
  with new a two c st av show ?thesis by simp
qed

end
